theory Spec2Isabelle
  imports Main
begin

section \<open>Python values and exceptions\<close>

text \<open>
  The program is a single Python module, a10.py: a pattern/action dispatcher
  (\<open>search_pa_list\<close>) over handlers that scrape facts from the summary box of a
  Wikipedia page.  Every \<open>raise\<close> of the module, and every exception the Python
  run time raises for an expression of the module, is a value of \<open>py_error\<close>; a function
  that may raise returns \<open>py_error + 'a\<close>, with \<open>Inl\<close> for the exception.
\<close>

datatype py_error =
    TypeError
  | IndexError
  | LookupError string
  | AttributeError string
  | KeyboardInterrupt
  | LibraryError string

type_synonym 'a result = "py_error + 'a"

section \<open>String operations of the Python run time\<close>

text \<open>\<open>" ".join(xs)\<close>\<close>

fun join_space :: "string list \<Rightarrow> string" where
  "join_space [] = []"
| "join_space [x] = x"
| "join_space (x # y # ys) = x @ '' '' @ join_space (y # ys)"

text \<open>\<open>s.split(",")\<close>: the pieces between the commas; always at least one piece.\<close>

fun split_comma :: "string \<Rightarrow> string list" where
  "split_comma [] = [[]]"
| "split_comma (c # cs) =
     (if c = CHR '','' then [] # split_comma cs
      else (case split_comma cs of
              [] \<Rightarrow> [[c]]
            | p # ps \<Rightarrow> (c # p) # ps))"

text \<open>
  \<open>s.strip()\<close> removes the white space at both ends.  A character of the model is one
  of the first 256 code points; among them \<open>str.isspace\<close> holds of the codes 9 to 13,
  28 to 32, 133 (next line) and 160 (no-break space).
\<close>

definition is_space :: "char \<Rightarrow> bool" where
  "is_space c =
     (let n = (of_char c :: nat)
      in (9 \<le> n \<and> n \<le> 13) \<or> (28 \<le> n \<and> n \<le> 32) \<or> n = 133 \<or> n = 160)"

definition strip :: "string \<Rightarrow> string" where
  "strip s = rev (dropWhile is_space (rev (dropWhile is_space s)))"

text \<open>\<open>xs[1]\<close> on a list: an IndexError when the list has fewer than two elements.\<close>

fun index1 :: "'a list \<Rightarrow> 'a result" where
  "index1 (x # y # ys) = Inr y"
| "index1 xs = Inl IndexError"

text \<open>\<open>xs[0]\<close> on a list: an IndexError on the empty list.\<close>

fun index0 :: "'a list \<Rightarrow> 'a result" where
  "index0 (x # xs) = Inr x"
| "index0 [] = Inl IndexError"

text \<open>
  \<open>x in c\<close>: list membership when \<open>c\<close> is a list; when \<open>c\<close> is \<open>None\<close> the
  run time raises a TypeError (\<open>None\<close> is not iterable).
\<close>

fun py_in :: "string \<Rightarrow> string list option \<Rightarrow> bool result" where
  "py_in x None = Inl TypeError"
| "py_in x (Some xs) = Inr (x \<in> set xs)"

section \<open>The pattern matcher\<close>

text \<open>
  Modelled from the spec: \<open>match\<close> of the module match.py, which a10.py imports and
  which is not among the sources.  The spec (4.1): the pattern and the input are walked
  positionally; a pattern token other than the wild card must equal the input token at
  the same position, compared without regard to case; the wild card \<open>%\<close> tries every
  contiguous span of the remaining input, the empty span included, as its capture and
  requires the rest of the pattern to match the rest of the input exactly; a success
  returns the list of input tokens the wild card consumed, a failure returns a sentinel
  that is not a list (\<open>None\<close>, which is what \<open>search_pa_list\<close> tests for).
  Spans are tried shortest first; for a pattern with one wild card the span is determined
  by the lengths, so the order does not show.
\<close>

definition lower_char :: "char \<Rightarrow> char" where
  "lower_char c =
     (let n = (of_char c :: nat) in if 65 \<le> n \<and> n \<le> 90 then char_of (n + 32) else c)"

definition lower :: "string \<Rightarrow> string" where
  "lower s = map lower_char s"

fun first_some :: "'a option list \<Rightarrow> 'a option" where
  "first_some [] = None"
| "first_some (None # xs) = first_some xs"
| "first_some (Some x # xs) = Some x"

fun match :: "string list \<Rightarrow> string list \<Rightarrow> string list option" where
  "match [] src = (if src = [] then Some [] else None)"
| "match (p # ps) src =
     (if p = ''%'' then
        first_some
          (map (\<lambda>k. map_option (\<lambda>r. take k src @ r) (match ps (drop k src)))
               [0 ..< Suc (length src)])
      else (case src of
              [] \<Rightarrow> None
            | s # ss \<Rightarrow> if lower p = lower s then match ps ss else None))"

section \<open>The outside world\<close>

text \<open>
  The module calls four libraries: \<open>wikipedia\<close> (search and page fetch),
  \<open>BeautifulSoup\<close> (the blocks of class infobox), and \<open>re\<close> (search and findall).
  They are parameters of the model: a \<open>world\<close> gives, for every argument, what the
  library returns or raises.  A regular-expression match object is the function from a
  group name to the text the group captured.
\<close>

record world =
  wiki_search :: "string \<Rightarrow> string list result"
  wiki_page :: "string \<Rightarrow> string result"
  find_all_infobox :: "string \<Rightarrow> string list"
  re_search :: "string \<Rightarrow> string \<Rightarrow> (string \<Rightarrow> string) option"
  re_findall :: "string \<Rightarrow> string \<Rightarrow> string list"

section \<open>The extraction pipeline\<close>

definition get_page_html :: "world \<Rightarrow> string \<Rightarrow> string result" where
  "get_page_html w title =
     (case wiki_search w title of
        Inl e \<Rightarrow> Inl e
      | Inr results \<Rightarrow>
          (case index0 results of
             Inl e \<Rightarrow> Inl e
           | Inr r \<Rightarrow> wiki_page w r))"

definition get_first_infobox_text :: "world \<Rightarrow> string \<Rightarrow> string result" where
  "get_first_infobox_text w html =
     (let results = find_all_infobox w html in
      if results = [] then Inl (LookupError ''Page has no infobox'')
      else index0 results)"

text \<open>\<open>string.printable\<close>: digits, letters, punctuation and white space.\<close>

definition printable :: "char \<Rightarrow> bool" where
  "printable c =
     (let n = (of_char c :: nat) in (32 \<le> n \<and> n \<le> 126) \<or> (9 \<le> n \<and> n \<le> 13))"

text \<open>\<open>re.sub(c + "+", c, s)\<close> for a single character \<open>c\<close>: every run of \<open>c\<close> becomes one.\<close>

fun collapse :: "char \<Rightarrow> string \<Rightarrow> string" where
  "collapse c (x # y # ys) =
     (if x = c \<and> y = c then collapse c (y # ys) else x # collapse c (y # ys))"
| "collapse c xs = xs"

definition clean_text :: "string \<Rightarrow> string" where
  "clean_text text =
     (let only_ascii = map (\<lambda>char. if printable char then char else CHR '' '') text;
          no_dup_spaces = collapse (CHR '' '') only_ascii;
          no_dup_newlines = collapse (CHR 0x0A) no_dup_spaces
      in no_dup_newlines)"

definition get_match :: "world \<Rightarrow> string \<Rightarrow> string \<Rightarrow> string \<Rightarrow> (string \<Rightarrow> string) result" where
  "get_match w text pattern error_text =
     (case re_search w pattern text of
        None \<Rightarrow> Inl (AttributeError error_text)
      | Some m \<Rightarrow> Inr m)"

text \<open>
  The expression \<open>clean_text(get_first_infobox_text(get_page_html(name)))\<close>, which
  opens every extractor.
\<close>

definition infobox_text_of :: "world \<Rightarrow> string \<Rightarrow> string result" where
  "infobox_text_of w name =
     (case get_page_html w name of
        Inl e \<Rightarrow> Inl e
      | Inr html \<Rightarrow>
          (case get_first_infobox_text w html of
             Inl e \<Rightarrow> Inl e
           | Inr box \<Rightarrow> Inr (clean_text box)))"

text \<open>The regular expressions of the module; \<open>bs\<close> is the backslash.\<close>

definition bs :: string where
  "bs = [CHR 0x5C]"

definition date_re :: string where
  "date_re = ''[A-Za-z]+'' @ bs @ ''s+'' @ bs @ ''d{1,2},'' @ bs @ ''s+'' @ bs @ ''d{4}''"

definition start_pattern :: string where
  "start_pattern =
     ''President of the United StatesIn office+(?P<officestart>'' @ date_re @ '')''"

definition assumed_pattern :: string where
  "assumed_pattern =
     ''IncumbentAssumed office'' @ bs @ ''s+(?P<officestart>'' @ date_re @ '')''"

definition end_pattern :: string where
  "end_pattern =
     ''President of the United StatesIn office+('' @ date_re @ '')'' @ bs
       @ ''s+(?P<officeend>'' @ date_re @ '')''"

definition number_pattern :: string where
  "number_pattern =
     ''('' @ bs @ ''d{2})(?=(?:st|nd|rd|th)'' @ bs @ ''b(?: & '' @ bs @ ''b'' @ bs
       @ ''d+(?:st|nd|rd|th)'' @ bs @ ''b)? President of the United States)''"

definition get_incumbency_start :: "world \<Rightarrow> string \<Rightarrow> string result" where
  "get_incumbency_start w name =
     (case infobox_text_of w name of
        Inl e \<Rightarrow> Inl e
      | Inr infobox_text \<Rightarrow>
          (let error_text = ''Page infobox has no incumbency start information'' in
           case get_match w infobox_text start_pattern error_text of
             Inr m \<Rightarrow> Inr (m ''officestart'')
           | Inl (AttributeError _) \<Rightarrow>
               (case get_match w infobox_text assumed_pattern error_text of
                  Inl e \<Rightarrow> Inl e
                | Inr m \<Rightarrow> Inr (m ''officestart''))
           | Inl e \<Rightarrow> Inl e))"

definition get_incumbency_end :: "world \<Rightarrow> string \<Rightarrow> string result" where
  "get_incumbency_end w name =
     (case infobox_text_of w name of
        Inl e \<Rightarrow> Inl e
      | Inr infobox_text \<Rightarrow>
          (let error_text = ''Page infobox has no incumbency end information'' in
           case get_match w infobox_text end_pattern error_text of
             Inr m \<Rightarrow> Inr (m ''officeend'')
           | Inl (AttributeError _) \<Rightarrow>
               (case get_match w infobox_text assumed_pattern error_text of
                  Inl e \<Rightarrow> Inl e
                | Inr m \<Rightarrow> Inr ''Current incumbent'')
           | Inl e \<Rightarrow> Inl e))"

definition get_number :: "world \<Rightarrow> string \<Rightarrow> string list result" where
  "get_number w name =
     (case infobox_text_of w name of
        Inl e \<Rightarrow> Inl e
      | Inr infobox_text \<Rightarrow>
          (let matches = re_findall w number_pattern infobox_text in
           if matches = []
           then Inl (AttributeError ''Page infobox has no presidential number information'')
           else Inr matches))"

section \<open>The actions\<close>

text \<open>An action takes the captured tokens and returns a list of answers, or raises.\<close>

type_synonym action = "world \<Rightarrow> string list \<Rightarrow> string list result"

definition incumbency_start :: action where
  "incumbency_start w matches =
     (case get_incumbency_start w (join_space matches) of
        Inl e \<Rightarrow> Inl e
      | Inr d \<Rightarrow> Inr [d])"

text \<open>
  The expression \<open>date.split(",")[1].strip() if date else "No answers"\<close> of the two
  year handlers.
\<close>

definition year_of :: "string \<Rightarrow> string result" where
  "year_of date =
     (if date \<noteq> [] then
        (case index1 (split_comma date) of
           Inl e \<Rightarrow> Inl e
         | Inr y \<Rightarrow> Inr (strip y))
      else Inr ''No answers'')"

definition incumbency_start_year :: action where
  "incumbency_start_year w matches =
     (case get_incumbency_start w (join_space matches) of
        Inl e \<Rightarrow> Inl e
      | Inr date \<Rightarrow>
          (case year_of date of
             Inl e \<Rightarrow> Inl e
           | Inr y \<Rightarrow> Inr [y]))"

definition incumbency_end :: action where
  "incumbency_end w matches =
     (case get_incumbency_end w (join_space matches) of
        Inl e \<Rightarrow> Inl e
      | Inr d \<Rightarrow> Inr [d])"

definition incumbency_end_year :: action where
  "incumbency_end_year w matches =
     (case get_incumbency_end w (join_space matches) of
        Inl e \<Rightarrow> Inl e
      | Inr date \<Rightarrow>
          (case year_of date of
             Inl e \<Rightarrow> Inl e
           | Inr y \<Rightarrow> Inr [y]))"

definition number :: action where
  "number w matches =
     (case get_number w (join_space matches) of
        Inl e \<Rightarrow> Inl e
      | Inr results \<Rightarrow>
          (if length results > 1
           then Inr [results ! 0 @ '' & '' @ results ! 1]
           else Inr results))"

definition bye_action :: action where
  "bye_action w dummy = Inl KeyboardInterrupt"

section \<open>The pattern-action list and the dispatcher\<close>

definition pa_list :: "(string list \<times> action) list" where
  "pa_list =
     [([''when'', ''did'', ''%'', ''take'', ''office''], incumbency_start),
      ([''when'', ''did'', ''%'', ''become'', ''president''], incumbency_start),
      ([''what'', ''year'', ''did'', ''%'', ''take'', ''office''], incumbency_start_year),
      ([''what'', ''year'', ''did'', ''%'', ''become'', ''president''], incumbency_start_year),
      ([''when'', ''did'', ''%'', ''begin'', ''his'', ''presidency''], incumbency_start),
      ([''what'', ''year'', ''did'', ''%'', ''begin'', ''his'', ''presidency''],
         incumbency_start_year),
      ([''when'', ''did'', ''%'', ''leave'', ''office''], incumbency_end),
      ([''when'', ''did'', ''%'', ''end'', ''his'', ''presidency''], incumbency_end),
      ([''what'', ''year'', ''did'', ''%'', ''leave'', ''office''], incumbency_end_year),
      ([''when'', ''year'', ''did'', ''%'', ''end'', ''his'', ''presidency''],
         incumbency_end_year),
      ([''what'', ''number'', ''president'', ''is'', ''%''], number),
      ([''what'', ''number'', ''president'', ''was'', ''%''], number),
      ([''which'', ''number'', ''president'', ''is'', ''%''], number),
      ([''which'', ''number'', ''president'', ''was'', ''%''], number),
      ([''bye''], bye_action)]"

text \<open>
  The condition of the first \<open>if\<close> of the loop body,
  \<^verbatim>\<open>mat is not None and "he" in mat or "they" in mat and previous_name is not None\<close>.
  Python parses it as \<open>(A and B) or (C and D)\<close> and evaluates from the left, stopping
  as soon as the value is known.  The global \<open>previous_name\<close> is a string at every
  moment (it starts as the empty string and is only ever assigned a token), so
  \<open>previous_name is not None\<close> is \<open>True\<close>.
\<close>

definition pronoun_test :: "string list option \<Rightarrow> string \<Rightarrow> bool result" where
  "pronoun_test mat previous_name =
     (case (if mat \<noteq> None then py_in ''he'' mat else Inr False) of
        Inl e \<Rightarrow> Inl e
      | Inr True \<Rightarrow> Inr True
      | Inr False \<Rightarrow>
          (case py_in ''they'' mat of
             Inl e \<Rightarrow> Inl e
           | Inr c \<Rightarrow> Inr (c \<and> True)))"

text \<open>\<open>answer if answer else ["No answers"]\<close>\<close>

definition or_no_answers :: "string list \<Rightarrow> string list" where
  "or_no_answers answer = (if answer \<noteq> [] then answer else [''No answers''])"

text \<open>
  The \<open>for\<close> loop of \<open>search_pa_list\<close> over the entries still to be examined.  The
  state is the global \<open>previous_name\<close>: it is an argument, and the second component of
  the result is its value when the function returns or raises.
\<close>

fun search_loop ::
  "world \<Rightarrow> (string list \<times> action) list \<Rightarrow> string \<Rightarrow> string list
     \<Rightarrow> string list result \<times> string" where
  "search_loop w [] previous_name src = (Inr [''I don't understand''], previous_name)"
| "search_loop w ((pat, act) # rest) previous_name src =
     (let mat = match pat src in
      case pronoun_test mat previous_name of
        Inl e \<Rightarrow> (Inl e, previous_name)
      | Inr True \<Rightarrow>
          (case act w [previous_name] of
             Inl e \<Rightarrow> (Inl e, previous_name)
           | Inr answer \<Rightarrow> (Inr (or_no_answers answer), previous_name))
      | Inr False \<Rightarrow>
          (case mat of
             Some m \<Rightarrow>
               (case act w m of
                  Inl e \<Rightarrow> (Inl e, previous_name)
                | Inr answer \<Rightarrow>
                    (case index0 m of
                       Inl e \<Rightarrow> (Inl e, previous_name)
                     | Inr m0 \<Rightarrow> (Inr (or_no_answers answer), m0)))
           | None \<Rightarrow> search_loop w rest previous_name src))"

definition search_pa_list :: "world \<Rightarrow> string \<Rightarrow> string list \<Rightarrow> string list result \<times> string" where
  "search_pa_list w previous_name src = search_loop w pa_list previous_name src"

section \<open>Sample worlds\<close>

text \<open>
  A world in which every search finds exactly the title asked for, except the titles in
  \<open>missing\<close>, for which it finds nothing; every page has the infobox blocks
  \<open>boxes\<close>; the three date patterns match or fail as \<open>started\<close>, \<open>ended\<close> and
  \<open>assumed\<close> say, every group of a match holding the given text; and the ordinal
  pattern is found at \<open>ordinals\<close>.
\<close>

definition fixed_world ::
  "string list \<Rightarrow> string list \<Rightarrow> string option \<Rightarrow> string option \<Rightarrow> string option
     \<Rightarrow> string list \<Rightarrow> world" where
  "fixed_world missing boxes started ended assumed ordinals =
     \<lparr> wiki_search = (\<lambda>t. Inr (if t \<in> set missing then [] else [t])),
       wiki_page = (\<lambda>t. Inr t),
       find_all_infobox = (\<lambda>h. boxes),
       re_search = (\<lambda>p t.
          if p = start_pattern then map_option (\<lambda>d g. d) started
          else if p = end_pattern then map_option (\<lambda>d g. d) ended
          else if p = assumed_pattern then map_option (\<lambda>d g. d) assumed
          else None),
       re_findall = (\<lambda>p t. ordinals) \<rparr>"

section \<open>The loop body, case by case\<close>

lemma pronoun_test_None:
  "pronoun_test None previous_name = Inl TypeError"
  by (simp add: pronoun_test_def)

lemma pronoun_test_Some:
  "pronoun_test (Some mat) previous_name = Inr (''he'' \<in> set mat \<or> ''they'' \<in> set mat)"
  by (simp add: pronoun_test_def split: bool.splits)

lemma search_loop_None:
  "match pat src = None \<Longrightarrow>
   search_loop w ((pat, act) # rest) previous_name src = (Inl TypeError, previous_name)"
  by (simp add: pronoun_test_None)

lemma search_loop_pronoun:
  "match pat src = Some mat \<Longrightarrow> ''he'' \<in> set mat \<or> ''they'' \<in> set mat \<Longrightarrow>
   search_loop w ((pat, act) # rest) previous_name src =
     (case act w [previous_name] of
        Inl e \<Rightarrow> (Inl e, previous_name)
      | Inr answer \<Rightarrow> (Inr (or_no_answers answer), previous_name))"
  by (simp add: pronoun_test_Some)

lemma search_loop_literal:
  "match pat src = Some mat \<Longrightarrow> ''he'' \<notin> set mat \<Longrightarrow> ''they'' \<notin> set mat \<Longrightarrow>
   search_loop w ((pat, act) # rest) previous_name src =
     (case act w mat of
        Inl e \<Rightarrow> (Inl e, previous_name)
      | Inr answer \<Rightarrow>
          (case mat of
             [] \<Rightarrow> (Inl IndexError, previous_name)
           | m0 # ms \<Rightarrow> (Inr (or_no_answers answer), m0)))"
  by (simp add: pronoun_test_Some split: sum.splits list.splits)

section \<open>Facts about the string operations\<close>

lemma split_comma_nonempty: "split_comma s \<noteq> []"
  by (induction s) (auto split: list.splits)

lemma split_comma_no_comma: "CHR '','' \<notin> set s \<Longrightarrow> split_comma s = [s]"
  by (induction s) auto

lemma split_comma_append:
  "CHR '','' \<notin> set a \<Longrightarrow> split_comma (a @ CHR '','' # b) = a # split_comma b"
  by (induction a) auto

lemma index1_split_comma:
  "(\<exists>y. index1 (split_comma s) = Inr y) \<longleftrightarrow> CHR '','' \<in> set s"
proof (cases "CHR '','' \<in> set s")
  case True
  then obtain a b where s: "s = a @ CHR '','' # b" and a: "CHR '','' \<notin> set a"
    by (meson split_list_first)
  obtain p ps where "split_comma b = p # ps"
    using split_comma_nonempty [of b] by (cases "split_comma b") auto
  then show ?thesis using True s a by (simp add: split_comma_append)
next
  case False
  then show ?thesis by (simp add: split_comma_no_comma)
qed

lemma strip_no_break_space:
  "strip ([CHR 0xA0] @ ''1861'' @ [CHR 0x85]) = ''1861''"
  by code_simp

lemma strip_leading_space:
  "\<forall>c \<in> set ws. is_space c \<Longrightarrow> strip (ws @ s) = strip s"
  by (simp add: strip_def dropWhile_append2)

lemma year_of_shape:
  assumes "CHR '','' \<notin> set month" "CHR '','' \<notin> set day" "CHR '','' \<notin> set year"
  shows "year_of (month @ '' '' @ day @ '','' @ year) = Inr (strip year)"
proof -
  have "CHR '','' \<notin> set (month @ '' '' @ day)" using assms by simp
  then have "split_comma ((month @ '' '' @ day) @ CHR '','' # year) = (month @ '' '' @ day) # split_comma year"
    by (rule split_comma_append)
  then show ?thesis using assms(3) by (simp add: year_of_def split_comma_no_comma)
qed

lemma year_of_no_comma:
  "date \<noteq> [] \<Longrightarrow> CHR '','' \<notin> set date \<Longrightarrow> year_of date = Inl IndexError"
  by (simp add: year_of_def split_comma_no_comma)

lemma year_of_total:
  "(\<exists>y. year_of date = Inr y) \<longleftrightarrow> date = [] \<or> CHR '','' \<in> set date"
proof (cases "date = []")
  case True
  then show ?thesis by (simp add: year_of_def)
next
  case False
  have "(\<exists>y. year_of date = Inr y) \<longleftrightarrow> (\<exists>y. index1 (split_comma date) = Inr y)"
    using False by (auto simp: year_of_def split: sum.splits)
  then show ?thesis using False by (simp add: index1_split_comma)
qed

section \<open>Facts about the sample worlds\<close>

lemma patterns_distinct:
  "start_pattern \<noteq> end_pattern" "start_pattern \<noteq> assumed_pattern"
  "end_pattern \<noteq> assumed_pattern" "end_pattern \<noteq> start_pattern"
  "assumed_pattern \<noteq> start_pattern" "assumed_pattern \<noteq> end_pattern"
  by (simp_all add: start_pattern_def end_pattern_def assumed_pattern_def date_re_def bs_def)

lemma re_search_fixed_world:
  "re_search (fixed_world missing boxes started ended assumed ordinals) start_pattern t
     = map_option (\<lambda>d g. d) started"
  "re_search (fixed_world missing boxes started ended assumed ordinals) end_pattern t
     = map_option (\<lambda>d g. d) ended"
  "re_search (fixed_world missing boxes started ended assumed ordinals) assumed_pattern t
     = map_option (\<lambda>d g. d) assumed"
  by (simp_all add: fixed_world_def patterns_distinct)

section \<open>A page without an infobox\<close>

lemma no_infobox_extractors:
  assumes "get_page_html w name = Inr html" and "find_all_infobox w html = []"
  shows "get_incumbency_start w name = Inl (LookupError ''Page has no infobox'')"
    and "get_incumbency_end w name = Inl (LookupError ''Page has no infobox'')"
    and "get_number w name = Inl (LookupError ''Page has no infobox'')"
  using assms
  by (simp_all add: get_incumbency_start_def get_incumbency_end_def get_number_def
        infobox_text_of_def get_first_infobox_text_def)

section \<open>Facts about the whole loop\<close>


lemma search_loop_error_keeps:
  "fst (search_loop w table previous_name src) = Inl e \<Longrightarrow>
   snd (search_loop w table previous_name src) = previous_name"
proof (induction table)
  case Nil
  then show ?case by simp
next
  case (Cons entry table)
  obtain pat act where entry: "entry = (pat, act)" by (cases entry)
  show ?case
  proof (cases "match pat src")
    case None
    then show ?thesis unfolding entry by (simp add: search_loop_None del: search_loop.simps)
  next
    case (Some mat)
    show ?thesis
    proof (cases "''he'' \<in> set mat \<or> ''they'' \<in> set mat")
      case True
      show ?thesis
        unfolding entry search_loop_pronoun [OF Some True]
        by (simp split: sum.splits)
    next
      case False
      then have n: "''he'' \<notin> set mat" "''they'' \<notin> set mat" by simp_all
      show ?thesis
        using Cons.prems
        unfolding entry search_loop_literal [OF Some n]
        by (simp split: sum.splits list.splits)
    qed
  qed
qed





lemma unmatched_query_raises:
  assumes "\<forall>(pat, act) \<in> set pa_list. match pat src = None"
  shows "search_pa_list w previous_name src = (Inl TypeError, previous_name)"
proof -
  have "match [''when'', ''did'', ''%'', ''take'', ''office''] src = None"
    using assms by (simp add: pa_list_def)
  then show ?thesis
    unfolding search_pa_list_def pa_list_def by (rule search_loop_None)
qed

section \<open>A query that matches no entry\<close>

text \<open>
  C1.  The query \<open>what is the weather\<close> matches none of the fifteen patterns.  The
  docstring of \<open>search_pa_list\<close> and the \<open>return\<close> after the loop promise the answer
  \<open>["I don't understand"]\<close>.  The code does not get there: the first pattern does not
  match, \<open>mat\<close> is \<open>None\<close>, the left operand of \<open>or\<close> is false, and the right
  operand starts with \<open>"they" in mat\<close>, which raises a TypeError on \<open>None\<close>.  The
  exception leaves \<open>search_pa_list\<close>, in every world and whatever \<open>previous_name\<close>
  holds; \<open>previous_name\<close> keeps its value.
\<close>

theorem no_match_raises_type_error:
  "map (\<lambda>(pat, act). match pat [''what'', ''is'', ''the'', ''weather'']) pa_list
     = replicate 15 None
   \<and> search_pa_list w previous_name [''what'', ''is'', ''the'', ''weather'']
     = (Inl TypeError, previous_name)"
proof
  show "map (\<lambda>(pat, act). match pat [''what'', ''is'', ''the'', ''weather'']) pa_list
          = replicate 15 None"
    by code_simp
next
  have "match [''when'', ''did'', ''%'', ''take'', ''office'']
          [''what'', ''is'', ''the'', ''weather''] = None"
    by code_simp
  then show "search_pa_list w previous_name [''what'', ''is'', ''the'', ''weather'']
          = (Inl TypeError, previous_name)"
    unfolding search_pa_list_def pa_list_def by (rule search_loop_None)
qed

section \<open>The extractor of the end of the incumbency\<close>

text \<open>
  C5.  Once the infobox text has been obtained, \<open>get_incumbency_end\<close> returns the group
  \<open>officeend\<close> of the match of the pattern for the layout "In office, start, end"; when
  that pattern does not match and the pattern for "Incumbent, Assumed office, start" does,
  it returns the literal \<open>Current incumbent\<close>; when neither matches it raises the
  AttributeError that \<open>get_match\<close> builds from its error text.
\<close>

theorem get_incumbency_end_layouts:
  assumes "infobox_text_of w name = Inr text"
  shows "(re_search w end_pattern text = Some m
            \<longrightarrow> get_incumbency_end w name = Inr (m ''officeend''))
       \<and> (re_search w end_pattern text = None \<and> re_search w assumed_pattern text = Some m'
            \<longrightarrow> get_incumbency_end w name = Inr ''Current incumbent'')
       \<and> (re_search w end_pattern text = None \<and> re_search w assumed_pattern text = None
            \<longrightarrow> get_incumbency_end w name
                  = Inl (AttributeError ''Page infobox has no incumbency end information''))"
  using assms by (simp add: get_incumbency_end_def get_match_def)

theorem get_incumbency_end_layouts_witness:
  "get_incumbency_end (fixed_world [] [''In office''] (Some ''March 4, 1861'') (Some ''April 15, 1865'') None [])
      ''abraham lincoln'' = Inr ''April 15, 1865''
   \<and> get_incumbency_end (fixed_world [] [''Incumbent''] None None (Some ''January 20, 2025'') [])
      ''the incumbent'' = Inr ''Current incumbent''
   \<and> get_incumbency_end (fixed_world [] [''Mars''] None None None [])
      ''mars'' = Inl (AttributeError ''Page infobox has no incumbency end information'')"
proof -
  let ?w1 = "fixed_world [] [''In office''] (Some ''March 4, 1861'') (Some ''April 15, 1865'') None []"
  let ?w2 = "fixed_world [] [''Incumbent''] None None (Some ''January 20, 2025'') []"
  let ?w3 = "fixed_world [] [''Mars''] None None None []"
  have t1: "infobox_text_of ?w1 ''abraham lincoln'' = Inr ''In office''" by code_simp
  have t2: "infobox_text_of ?w2 ''the incumbent'' = Inr ''Incumbent''" by code_simp
  have t3: "infobox_text_of ?w3 ''mars'' = Inr ''Mars''" by code_simp
  show ?thesis
    using get_incumbency_end_layouts [OF t1, of "\<lambda>g. ''April 15, 1865''"]
      get_incumbency_end_layouts [OF t2, of _ "\<lambda>g. ''January 20, 2025''"]
      get_incumbency_end_layouts [OF t3]
    by (simp add: re_search_fixed_world)
qed

section \<open>The number handler\<close>

text \<open>
  C7.  Whenever \<open>number\<close> returns, it returns a list of exactly one element; when
  \<open>get_number\<close> finds two ordinals the element is the two joined by \<open>" & "\<close>; when
  it finds one, the handler returns that one.
\<close>

theorem number_single_element:
  "(number w matches = Inr xs \<longrightarrow> length xs = 1)
   \<and> (get_number w (join_space matches) = Inr [a, b]
        \<longrightarrow> number w matches = Inr [a @ '' & '' @ b])
   \<and> (get_number w (join_space matches) = Inr [c]
        \<longrightarrow> number w matches = Inr [c])"
proof -
  have "length xs = 1" if "number w matches = Inr xs"
  proof (cases "get_number w (join_space matches)")
    case (Inl e)
    with that show ?thesis by (simp add: number_def)
  next
    case (Inr results)
    then have "results \<noteq> []"
      by (auto simp: get_number_def Let_def split: sum.splits if_splits)
    with Inr that show ?thesis
      by (cases results) (auto simp: number_def split: if_splits)
  qed
  then show ?thesis by (simp add: number_def)
qed

theorem number_single_element_witness:
  "number (fixed_world [] [''box''] None None None [''22'', ''24'']) [''grover'', ''cleveland'']
      = Inr [''22 & 24'']
   \<and> number (fixed_world [] [''box''] None None None [''16'']) [''abraham'', ''lincoln'']
      = Inr [''16'']
   \<and> length [''22 & 24''] = 1"
proof -
  let ?w1 = "fixed_world [] [''box''] None None None [''22'', ''24'']"
  let ?w2 = "fixed_world [] [''box''] None None None [''16'']"
  have g1: "get_number ?w1 (join_space [''grover'', ''cleveland'']) = Inr [''22'', ''24'']"
    by code_simp
  have g2: "get_number ?w2 (join_space [''abraham'', ''lincoln'']) = Inr [''16'']"
    by code_simp
  show ?thesis
    using number_single_element [of ?w1 "[''grover'', ''cleveland'']" "[''22 & 24'']" "''22''" "''24''"]
      number_single_element [of ?w2 "[''abraham'', ''lincoln'']" _ _ _ "''16''"] g1 g2
    by simp
qed

section \<open>The year handlers\<close>

text \<open>
  C6.  For a date of the shape month, space, day, comma, white space, year, whose month,
  day and year hold no comma, \<open>incumbency_start_year\<close> and \<open>incumbency_end_year\<close>
  return the one-element list holding the year with the white space at its ends removed:
  the date is split at the comma, the second piece is taken and stripped.  For the empty
  date they return the one-element list holding \<open>No answers\<close>.
\<close>

theorem year_handlers_well_formed_date:
  assumes "CHR '','' \<notin> set month" and "CHR '','' \<notin> set day" and "CHR '','' \<notin> set year"
    and "\<forall>c \<in> set ws. is_space c"
  shows "(get_incumbency_start w (join_space matches)
              = Inr (month @ '' '' @ day @ '','' @ ws @ year)
            \<longrightarrow> incumbency_start_year w matches = Inr [strip year])
       \<and> (get_incumbency_end w (join_space matches)
              = Inr (month @ '' '' @ day @ '','' @ ws @ year)
            \<longrightarrow> incumbency_end_year w matches = Inr [strip year])
       \<and> (get_incumbency_start w (join_space matches) = Inr []
            \<longrightarrow> incumbency_start_year w matches = Inr [''No answers''])
       \<and> (get_incumbency_end w (join_space matches) = Inr []
            \<longrightarrow> incumbency_end_year w matches = Inr [''No answers''])"
proof -
  have "CHR '','' \<notin> set ws" using assms(4) by (auto simp: is_space_def)
  then have "CHR '','' \<notin> set (ws @ year)" using assms(3) by simp
  from year_of_shape [OF assms(1,2) this]
  have "year_of (month @ '' '' @ day @ '','' @ ws @ year) = Inr (strip year)"
    by (simp add: strip_leading_space [OF assms(4)])
  then show ?thesis
    by (simp add: incumbency_start_year_def incumbency_end_year_def) (simp add: year_of_def)
qed

theorem year_handlers_well_formed_date_witness:
  "incumbency_start_year (fixed_world [] [''box''] (Some ''March 4, 1861'') (Some ''April 15, 1865'') None [])
      [''abraham'', ''lincoln''] = Inr [''1861'']
   \<and> incumbency_end_year (fixed_world [] [''box''] (Some ''March 4, 1861'') (Some ''April 15, 1865'') None [])
      [''abraham'', ''lincoln''] = Inr [''1865'']
   \<and> incumbency_start_year (fixed_world [] [''box''] (Some '''') (Some '''') None [])
      [''nobody''] = Inr [''No answers'']
   \<and> incumbency_end_year (fixed_world [] [''box''] (Some '''') (Some '''') None [])
      [''nobody''] = Inr [''No answers'']"
proof -
  let ?w1 = "fixed_world [] [''box''] (Some ''March 4, 1861'') (Some ''April 15, 1865'') None []"
  let ?w2 = "fixed_world [] [''box''] (Some '''') (Some '''') None []"
  have s1: "get_incumbency_start ?w1 (join_space [''abraham'', ''lincoln''])
              = Inr (''March'' @ '' '' @ ''4'' @ '','' @ '' '' @ ''1861'')" by code_simp
  have e1: "get_incumbency_end ?w1 (join_space [''abraham'', ''lincoln''])
              = Inr (''April'' @ '' '' @ ''15'' @ '','' @ '' '' @ ''1865'')" by code_simp
  have s2: "get_incumbency_start ?w2 (join_space [''nobody'']) = Inr []" by code_simp
  have e2: "get_incumbency_end ?w2 (join_space [''nobody'']) = Inr []" by code_simp
  have y1: "strip ''1861'' = ''1861''" by code_simp
  have y2: "strip ''1865'' = ''1865''" by code_simp
  have n1: "CHR '','' \<notin> set ''March''" "CHR '','' \<notin> set ''4''" "CHR '','' \<notin> set ''1861''"
    "CHR '','' \<notin> set ''April''" "CHR '','' \<notin> set ''15''" "CHR '','' \<notin> set ''1865''"
    by simp_all
  have sp: "\<forall>c \<in> set '' ''. is_space c" by (simp add: is_space_def)
  show ?thesis
    using year_handlers_well_formed_date [OF n1(1,2,3) sp, of ?w1 "[''abraham'', ''lincoln'']"]
      year_handlers_well_formed_date [OF n1(4,5,6) sp, of ?w1 "[''abraham'', ''lincoln'']"]
      year_handlers_well_formed_date [OF n1(1,2,3) sp, of ?w2 "[''nobody'']"]
      s1 e1 s2 e2 y1 y2
    by simp
qed

text \<open>
  C10.  For a date that is not empty and holds no comma, both year handlers raise the
  IndexError of \<open>date.split(",")[1]\<close>; the second piece of the split exists exactly
  when the date holds a comma.
\<close>

theorem year_handlers_no_comma_index_error:
  assumes "date \<noteq> []" and "CHR '','' \<notin> set date"
  shows "(get_incumbency_start w (join_space matches) = Inr date
            \<longrightarrow> incumbency_start_year w matches = Inl IndexError)
       \<and> (get_incumbency_end w (join_space matches) = Inr date
            \<longrightarrow> incumbency_end_year w matches = Inl IndexError)
       \<and> ((\<exists>y. index1 (split_comma d) = Inr y) \<longleftrightarrow> CHR '','' \<in> set d)"
  using assms
  by (simp add: incumbency_start_year_def incumbency_end_year_def year_of_no_comma
        index1_split_comma)

theorem year_handlers_no_comma_index_error_witness:
  "incumbency_start_year (fixed_world [] [''box''] (Some ''1861'') None None []) [''abraham'', ''lincoln''] = Inl IndexError
   \<and> incumbency_end_year (fixed_world [] [''box''] None None (Some ''January 20, 2025'') []) [''the'', ''incumbent''] = Inl IndexError
   \<and> (\<exists>y. index1 (split_comma ''March 4, 1861'') = Inr y)"
proof -
  have s: "get_incumbency_start (fixed_world [] [''box''] (Some ''1861'') None None []) (join_space [''abraham'', ''lincoln'']) = Inr ''1861''"
    by code_simp
  have e: "get_incumbency_end (fixed_world [] [''box''] None None (Some ''January 20, 2025'') []) (join_space [''the'', ''incumbent'']) = Inr ''Current incumbent''"
    by code_simp
  show ?thesis
    using year_handlers_no_comma_index_error [of "''1861''" "fixed_world [] [''box''] (Some ''1861'') None None []" "[''abraham'', ''lincoln'']" "''March 4, 1861''"]
      year_handlers_no_comma_index_error [of "''Current incumbent''" "fixed_world [] [''box''] None None (Some ''January 20, 2025'') []" "[''the'', ''incumbent'']" "''March 4, 1861''"]
      s e
    by simp
qed

section \<open>Exceptions and the remembered name\<close>

text \<open>
  C9.  When the handler that the loop body invokes raises, the dispatcher raises the same
  exception and \<open>previous_name\<close> keeps its value: the assignment to \<open>previous_name\<close>
  comes after the call.  \<open>bye_action\<close> raises KeyboardInterrupt on every argument.  More
  generally no exception that leaves \<open>search_pa_list\<close> changes \<open>previous_name\<close>.
\<close>

theorem handler_exception_keeps_previous_name:
  "(match pat src = Some mat
      \<and> act w (if ''he'' \<in> set mat \<or> ''they'' \<in> set mat then [previous_name] else mat) = Inl e
      \<longrightarrow> search_loop w ((pat, act) # rest) previous_name src = (Inl e, previous_name))
   \<and> bye_action w dummy = Inl KeyboardInterrupt
   \<and> (fst (search_pa_list w previous_name src) = Inl e'
      \<longrightarrow> snd (search_pa_list w previous_name src) = previous_name)"
proof (intro conjI impI)
  assume a: "match pat src = Some mat
      \<and> act w (if ''he'' \<in> set mat \<or> ''they'' \<in> set mat then [previous_name] else mat) = Inl e"
  show "search_loop w ((pat, act) # rest) previous_name src = (Inl e, previous_name)"
  proof (cases "''he'' \<in> set mat \<or> ''they'' \<in> set mat")
    case True
    with a show ?thesis by (simp add: search_loop_pronoun del: search_loop.simps)
  next
    case False
    then have n: "''he'' \<notin> set mat" "''they'' \<notin> set mat" by simp_all
    from a False show ?thesis by (simp add: search_loop_literal [OF _ n] del: search_loop.simps)
  qed
next
  show "bye_action w dummy = Inl KeyboardInterrupt" by (simp add: bye_action_def)
next
  assume "fst (search_pa_list w previous_name src) = Inl e'"
  then show "snd (search_pa_list w previous_name src) = previous_name"
    unfolding search_pa_list_def by (rule search_loop_error_keeps)
qed

theorem handler_exception_keeps_previous_name_witness:
  "search_loop (fixed_world [] [] None None None []) pa_list ''george washington''
      [''when'', ''did'', ''abraham'', ''lincoln'', ''take'', ''office'']
     = (Inl (LookupError ''Page has no infobox''), ''george washington'')
   \<and> search_loop (fixed_world [] [] None None None []) [([''bye''], bye_action)] ''george washington''
      [''bye'']
     = (Inl KeyboardInterrupt, ''george washington'')
   \<and> snd (search_pa_list (fixed_world [] [] None None None []) ''george washington''
      [''when'', ''did'', ''abraham'', ''lincoln'', ''take'', ''office'']) = ''george washington''"
proof -
  let ?w = "fixed_world [] [] None None None []"
  let ?q = "[''when'', ''did'', ''abraham'', ''lincoln'', ''take'', ''office'']"
  have m: "match [''when'', ''did'', ''%'', ''take'', ''office''] ?q = Some [''abraham'', ''lincoln'']"
    by code_simp
  have h: "incumbency_start ?w [''abraham'', ''lincoln''] = Inl (LookupError ''Page has no infobox'')"
    by code_simp
  have b: "match [''bye''] [''bye''] = Some []" by code_simp
  have f: "fst (search_pa_list ?w ''george washington'' ?q) = Inl (LookupError ''Page has no infobox'')"
    by code_simp
  show ?thesis
    unfolding pa_list_def
    using handler_exception_keeps_previous_name [of "[''when'', ''did'', ''%'', ''take'', ''office'']" ?q "[''abraham'', ''lincoln'']"
                incumbency_start ?w "''george washington''" "LookupError ''Page has no infobox''" _ _
                "LookupError ''Page has no infobox''"]
      handler_exception_keeps_previous_name [of "[''bye'']" "[''bye'']" "[]" bye_action ?w "''george washington''" KeyboardInterrupt "[]"]
      m h b f
    by simp
qed

section \<open>A pronoun while nothing is remembered\<close>

text \<open>
  C2.  The claim sends a capture with \<open>he\<close> or \<open>they\<close> to the remembered name only
  when something is remembered, and otherwise has the handler run on the captured tokens
  and the first of them remembered.  The guard the code has for this,
  \<open>previous_name is not None\<close>, can never fail, because the global starts as the empty
  string and not as \<open>None\<close>; and as the condition is parsed it does not guard \<open>he\<close> at
  all.  With nothing remembered and the query \<open>when did he take office\<close>, in a world where
  the search for the empty title finds nothing and the page \<open>he\<close> has a start date, the
  claim has the handler run on \<open>["he"]\<close>, which answers, and \<open>he\<close> remembered.  The
  code runs the handler on \<open>[""]\<close>, which raises, and remembers nothing.
\<close>

theorem pronoun_with_empty_memory_uses_empty_name:
  "match [''when'', ''did'', ''%'', ''take'', ''office'']
      [''when'', ''did'', ''he'', ''take'', ''office''] = Some [''he'']
   \<and> incumbency_start (fixed_world [''''] [''box''] (Some ''April 30, 1789'') None None [])
        [''he''] = Inr [''April 30, 1789'']
   \<and> search_pa_list (fixed_world [''''] [''box''] (Some ''April 30, 1789'') None None []) ''''
        [''when'', ''did'', ''he'', ''take'', ''office''] = (Inl IndexError, '''')
   \<and> search_pa_list (fixed_world [''''] [''box''] (Some ''April 30, 1789'') None None []) ''''
        [''when'', ''did'', ''he'', ''take'', ''office''] \<noteq> (Inr [''April 30, 1789''], ''he'')"
  by code_simp

text \<open>
  C3.  The claim asks that a query with a pronoun, asked while nothing is remembered,
  ends in a normal list of answers and in no exception; its example is
  \<open>when did he leave office\<close>.  That query matches the seventh entry with the capture
  \<open>["he"]\<close>, but the first entry does not match it, so the condition of the loop body
  raises a TypeError on \<open>None\<close>, in every world.  Where the first entry does match
  (\<open>when did he take office\<close>) the empty name is looked up, and in a world where the
  search for the empty title finds nothing the IndexError of \<open>results[0]\<close> leaves
  \<open>search_pa_list\<close>.
\<close>

theorem empty_memory_pronoun_query_raises:
  "match [''when'', ''did'', ''%'', ''leave'', ''office'']
      [''when'', ''did'', ''he'', ''leave'', ''office''] = Some [''he'']
   \<and> search_pa_list w '''' [''when'', ''did'', ''he'', ''leave'', ''office'']
     = (Inl TypeError, '''')
   \<and> search_pa_list (fixed_world [''''] [''box''] (Some ''March 4, 1861'') None None []) ''''
        [''when'', ''did'', ''he'', ''take'', ''office''] = (Inl IndexError, '''')"
proof (intro conjI)
  show "match [''when'', ''did'', ''%'', ''leave'', ''office'']
      [''when'', ''did'', ''he'', ''leave'', ''office''] = Some [''he'']"
    by code_simp
next
  have "match [''when'', ''did'', ''%'', ''take'', ''office'']
          [''when'', ''did'', ''he'', ''leave'', ''office''] = None"
    by code_simp
  then show "search_pa_list w '''' [''when'', ''did'', ''he'', ''leave'', ''office'']
     = (Inl TypeError, '''')"
    unfolding search_pa_list_def pa_list_def by (rule search_loop_None)
next
  show "search_pa_list (fixed_world [''''] [''box''] (Some ''March 4, 1861'') None None []) ''''
        [''when'', ''did'', ''he'', ''take'', ''office''] = (Inl IndexError, '''')"
    by code_simp
qed

section \<open>An empty list of answers\<close>



section \<open>A page without an infobox, asked about through a later entry\<close>

text \<open>
  C8.  In a world where no page has an infobox, the query
  \<open>when did abraham lincoln leave office\<close> matches the seventh entry, whose handler
  \<open>incumbency_end\<close> raises the LookupError \<open>Page has no infobox\<close> on the capture.  The
  claim says this LookupError reaches the caller.  \<open>search_pa_list\<close> never invokes the
  handler: the first entry does not match and the condition of the loop body raises a
  TypeError on \<open>None\<close>.  (For a query that matches the first entry the LookupError does
  reach the caller.)
\<close>

theorem no_infobox_later_entry_raises_type_error:
  "match [''when'', ''did'', ''%'', ''leave'', ''office'']
      [''when'', ''did'', ''abraham'', ''lincoln'', ''leave'', ''office'']
     = Some [''abraham'', ''lincoln'']
   \<and> incumbency_end (fixed_world [] [] None None None []) [''abraham'', ''lincoln'']
     = Inl (LookupError ''Page has no infobox'')
   \<and> search_pa_list (fixed_world [] [] None None None []) ''''
        [''when'', ''did'', ''abraham'', ''lincoln'', ''leave'', ''office'']
     = (Inl TypeError, '''')"
  by code_simp

end
